theory Spec2Isabelle
  imports Main "HOL-Library.Sublist"
begin

section \<open>Python values and primitives used by \<open>ArtifactRegistry\<close>\<close>

text \<open>
  The exceptions that the modelled code can raise. Every raising operation of the source
  returns \<open>Inl\<close> of one of them.
\<close>

datatype py_error = IndexError | AttributeError | ValueError string

text \<open>
  An attribute or keyword argument typed \<open>str\<close> with default \<open>None\<close> is a
  \<open>string option\<close>. Python's truth test makes \<open>None\<close> and the empty string false.
\<close>

definition truthy :: "string option \<Rightarrow> bool" where
  "truthy v = (case v of None \<Rightarrow> False | Some s \<Rightarrow> s \<noteq> [])"

text \<open>\<open>a or b\<close>: the left operand when it is true, the right operand otherwise.\<close>

definition py_or :: "string option \<Rightarrow> string option \<Rightarrow> string option" where
  "py_or a b = (if truthy a then a else b)"

text \<open>How an f-string renders an attribute: \<open>None\<close> is printed as the text \<open>None\<close>.\<close>

definition fmt :: "string option \<Rightarrow> string" where
  "fmt v = (case v of None \<Rightarrow> ''None'' | Some s \<Rightarrow> s)"

text \<open>\<open>s.startswith(p)\<close>.\<close>

definition startswith :: "string \<Rightarrow> string \<Rightarrow> bool" where
  "startswith s p = prefix p s"

text \<open>\<open>sub in s\<close> for two strings: \<open>sub\<close> occurs in \<open>s\<close> as a contiguous piece.\<close>

fun contains :: "string \<Rightarrow> string \<Rightarrow> bool" where
  "contains sub [] = (sub = [])"
| "contains sub (c # cs) = (prefix sub (c # cs) \<or> contains sub cs)"

text \<open>
  \<open>s.split(sep)\<close> for a non-empty separator: the string is scanned from the left and cut at
  each occurrence of \<open>sep\<close>, occurrences not overlapping. The result is never empty;
  the empty string gives one empty piece. Python raises \<open>ValueError\<close> on an empty
  separator; the source only passes the literals \<open>"/"\<close>, \<open>":"\<close> and \<open>"sha256:"\<close>, and
  the model leaves the input uncut there.
\<close>

fun str_split :: "string \<Rightarrow> string \<Rightarrow> string list" where
  "str_split sep [] = [[]]"
| "str_split sep (c # cs) =
     (if sep \<noteq> [] \<and> prefix sep (c # cs)
      then [] # str_split sep (drop (length sep) (c # cs))
      else (case str_split sep cs of
              [] \<Rightarrow> [[c]]
            | w # ws \<Rightarrow> (c # w) # ws))"

text \<open>\<open>sep.join(xs)\<close>.\<close>

fun str_join :: "string \<Rightarrow> string list \<Rightarrow> string" where
  "str_join sep [] = []"
| "str_join sep [x] = x"
| "str_join sep (x # y # ys) = x @ sep @ str_join sep (y # ys)"

text \<open>
  \<open>s.replace(old, new)\<close> for a non-empty \<open>old\<close> (the source passes \<open>"%2F"\<close>):
  occurrences are replaced from the left, not overlapping.
\<close>

fun str_replace :: "string \<Rightarrow> string \<Rightarrow> string \<Rightarrow> string" where
  "str_replace old new [] = []"
| "str_replace old new (c # cs) =
     (if old \<noteq> [] \<and> prefix old (c # cs)
      then new @ str_replace old new (drop (length old) (c # cs))
      else c # str_replace old new cs)"

text \<open>The slice \<open>xs[1::2]\<close>: the elements at the odd indices.\<close>

fun slice_1_2 :: "'a list \<Rightarrow> 'a list" where
  "slice_1_2 (x # y # zs) = y # slice_1_2 zs"
| "slice_1_2 _ = []"

text \<open>\<open>xs[i]\<close> for \<open>i \<ge> 0\<close>: \<open>IndexError\<close> when \<open>i\<close> is out of range.\<close>

definition index :: "'a list \<Rightarrow> nat \<Rightarrow> py_error + 'a" where
  "index xs i = (if i < length xs then Inr (xs ! i) else Inl IndexError)"


text \<open>
  A block \<open>try: stmt\<^sub>1; ...; stmt\<^sub>n  except (E\<^sub>1, ...): handler\<close> over a state. The statements run
  in order; when one raises an exception listed in \<open>handled\<close>, the handler runs on the state
  reached so far (what earlier statements of the block assigned stays assigned); any other
  exception leaves the block.
\<close>

fun try_except ::
  "('s \<Rightarrow> py_error + 's) list \<Rightarrow> py_error list \<Rightarrow> ('s \<Rightarrow> 's) \<Rightarrow> 's \<Rightarrow> py_error + 's" where
  "try_except [] handled handler s = Inr s"
| "try_except (stmt # rest) handled handler s =
     (case stmt s of
        Inr s' \<Rightarrow> try_except rest handled handler s'
      | Inl e \<Rightarrow> if e \<in> set handled then Inr (handler s) else Inl e)"

text \<open>\<open>pass\<close> as a handler.\<close>

definition pass :: "'s \<Rightarrow> 's" where
  "pass s = s"

text \<open>Sequencing of two fallible steps: an exception of the first skips the second.\<close>

definition and_then :: "py_error + 'a \<Rightarrow> ('a \<Rightarrow> py_error + 'b) \<Rightarrow> py_error + 'b" where
  "and_then m f = (case m of Inl e \<Rightarrow> Inl e | Inr v \<Rightarrow> f v)"

section \<open>The locator built by \<open>ArtifactRegistry.__init__\<close>\<close>

text \<open>
  The attributes that \<open>__init__\<close> assigns up to \<open>self.path\<close>. \<open>level\<close> and \<open>path\<close> are
  assigned last; until then they hold \<open>None\<close> and the empty string in the model.
  (The attribute \<open>image\<close> is named \<open>image_name\<close>: \<open>image\<close> is a constant of HOL.)
\<close>

record locator =
  project :: "string option"
  location :: "string option"
  repository :: "string option"
  image_name :: "string option"
  tag :: "string option"
  version :: "string option"
  level :: "string option"
  path :: string

text \<open>The arguments of \<open>__init__\<close>, and their defaults.\<close>

record init_args =
  arg_path :: string
  arg_project :: "string option"
  arg_location :: "string option"
  arg_repository :: "string option"
  arg_image :: "string option"
  arg_version :: "string option"
  arg_tag :: "string option"

definition default_args :: init_args where
  "default_args =
     \<lparr>arg_path = [], arg_project = None, arg_location = Some ''europe-west2'',
      arg_repository = None, arg_image = None, arg_version = None, arg_tag = None\<rparr>"

text \<open>
  What \<open>__init__\<close> reads from outside: \<open>os.environ.get("PROJECT")\<close> and the project of
  \<open>get_auth_default()\<close> (second component of its result; the function is not part of the
  modelled file, its result is a parameter).
\<close>

record environment =
  environ_PROJECT :: "string option"
  auth_default_project :: "string option"

subsection \<open>\<open>_get_level\<close>\<close>

definition get_level :: "locator \<Rightarrow> string option" where
  "get_level self =
     (if truthy (tag self) \<or> truthy (version self) then Some ''digest''
      else if truthy (image_name self) then Some ''image''
      else if truthy (repository self) then Some ''repository''
      else if truthy (location self) then Some ''location''
      else if truthy (project self) then Some ''project''
      else None)"

subsection \<open>\<open>_get_path\<close>\<close>

definition get_path :: "bool \<Rightarrow> locator \<Rightarrow> string" where
  "get_path shorten self =
     (if level self = None then []
      else
        (let p =
           (if level self = Some ''project'' then
              ''projects/'' @ fmt (project self)
            else if level self = Some ''location'' then
              ''projects/'' @ fmt (project self) @ ''/locations/'' @ fmt (location self)
            else if level self = Some ''repository'' then
              ''projects/'' @ fmt (project self) @ ''/locations/'' @ fmt (location self)
                @ ''/repositories/'' @ fmt (repository self)
            else if level self = Some ''image'' then
              ''projects/'' @ fmt (project self) @ ''/locations/'' @ fmt (location self)
                @ ''/repositories/'' @ fmt (repository self)
                @ ''/packages/'' @ fmt (image_name self)
            else if level self = Some ''digest'' \<and> truthy (tag self) then
              ''projects/'' @ fmt (project self) @ ''/locations/'' @ fmt (location self)
                @ ''/repositories/'' @ fmt (repository self)
                @ ''/packages/'' @ fmt (image_name self) @ ''/tags/'' @ fmt (tag self)
            else if level self = Some ''digest'' \<and> truthy (version self) then
              ''projects/'' @ fmt (project self) @ ''/locations/'' @ fmt (location self)
                @ ''/repositories/'' @ fmt (repository self)
                @ ''/packages/'' @ fmt (image_name self)
                @ ''/versions/sha256:'' @ fmt (version self)
            else [])
         in if shorten then str_join ''/'' (slice_1_2 (str_split ''/'' p)) else p))"

subsection \<open>\<open>__init__\<close>, lines 34 to 84\<close>

text \<open>
  Lines 34 to 51 work on the local variables \<open>path\<close>, \<open>project\<close> and \<open>location\<close>: a path
  that starts with \<open>projects/\<close> loses its key segments, has \<open>%2F\<close> decoded, and gives up its
  first two segments as project and location. Each of the three \<open>try\<close> blocks catches
  \<open>IndexError\<close>; the second one's handler sets \<open>location = None\<close>.
\<close>

definition strip_qualified ::
  "string \<times> string option \<times> string option \<Rightarrow>
   py_error + (string \<times> string option \<times> string option)" where
  "strip_qualified locals =
     (case locals of (path0, project0, location0) \<Rightarrow>
        if startswith path0 ''projects/'' then
          (let path1 = str_join ''/'' (slice_1_2 (str_split ''/'' path0));
               path2 = str_replace ''%2F'' ''/'' path1
           in and_then
                (try_except
                   [\<lambda>(pa, pr, lo). and_then (index (str_split ''/'' pa) 0)
                                       (\<lambda>v. Inr (pa, Some v, lo))]
                   [IndexError] pass (path2, project0, location0))
             (\<lambda>locals1. and_then
                (try_except
                   [\<lambda>(pa, pr, lo). and_then (index (str_split ''/'' pa) 1)
                                       (\<lambda>v. Inr (pa, pr, Some v))]
                   [IndexError] (\<lambda>(pa, pr, lo). (pa, pr, None)) locals1)
             (\<lambda>locals2.
                try_except
                   [\<lambda>(pa, pr, lo). Inr (str_join ''/'' (drop 2 (str_split ''/'' pa)), pr, lo)]
                   [IndexError] pass locals2)))
        else Inr locals)"

text \<open>Lines 58 to 61: \<open>self.repository = path.split("/")[0]\<close>.\<close>

definition set_repository :: "string \<Rightarrow> locator \<Rightarrow> py_error + locator" where
  "set_repository pa =
     try_except
       [\<lambda>self. and_then (index (str_split ''/'' pa) 0)
                  (\<lambda>v. Inr (self\<lparr>repository := Some v\<rparr>))]
       [IndexError] pass"

text \<open>
  Lines 62 to 71. \<open>self.image\<close> holds the list \<open>path.split("/")[1:]\<close> only between the
  first statement and the assignment of the \<open>if\<close> chain that follows it, which replaces
  it by all but the last piece joined again, by \<open>None\<close>, or by the only piece.
\<close>

definition set_image :: "string \<Rightarrow> locator \<Rightarrow> py_error + locator" where
  "set_image pa =
     try_except
       [\<lambda>self.
          (let pieces = drop 1 (str_split ''/'' pa)
           in if length pieces > 1 then
                Inr (self\<lparr>image_name := Some (str_join ''/'' (butlast pieces))\<rparr>)
              else if pieces = [] then
                Inr (self\<lparr>image_name := None\<rparr>)
              else
                and_then (index pieces 0) (\<lambda>v. Inr (self\<lparr>image_name := Some v\<rparr>)))]
       [IndexError] pass"

text \<open>Lines 72 to 75: \<open>self.version = path.split("sha256:")[1]\<close>.\<close>

definition set_version :: "string \<Rightarrow> locator \<Rightarrow> py_error + locator" where
  "set_version pa =
     try_except
       [\<lambda>self. and_then (index (str_split ''sha256:'' pa) 1)
                  (\<lambda>v. Inr (self\<lparr>version := Some v\<rparr>))]
       [IndexError] pass"

text \<open>
  Lines 76 to 80: two statements that split \<open>self.image\<close> at \<open>":"\<close>. \<open>None\<close> has no
  \<open>split\<close>: \<open>AttributeError\<close>.
\<close>

definition image_split :: "locator \<Rightarrow> py_error + string list" where
  "image_split self =
     (case image_name self of
        None \<Rightarrow> Inl AttributeError
      | Some i \<Rightarrow> Inr (str_split '':'' i))"

definition set_tag :: "locator \<Rightarrow> py_error + locator" where
  "set_tag =
     try_except
       [\<lambda>self. and_then (image_split self) (\<lambda>pieces.
                 and_then (index pieces 1) (\<lambda>v. Inr (self\<lparr>tag := Some v\<rparr>))),
        \<lambda>self. and_then (image_split self) (\<lambda>pieces.
                 and_then (index pieces 0) (\<lambda>v. Inr (self\<lparr>image_name := Some v\<rparr>)))]
       [IndexError, AttributeError] pass"

text \<open>Lines 81 and 82: a tag clears the version.\<close>

definition clear_version :: "locator \<Rightarrow> locator" where
  "clear_version self = (if truthy (tag self) then self\<lparr>version := None\<rparr> else self)"

definition init :: "environment \<Rightarrow> init_args \<Rightarrow> py_error + locator" where
  "init env a =
     and_then (strip_qualified (arg_path a, arg_project a, arg_location a))
       (\<lambda>(pa, pr, lo).
          (let self0 =
                 \<lparr>project = py_or (py_or pr (environ_PROJECT env)) (auth_default_project env),
                  location = lo,
                  repository = arg_repository a,
                  image_name = arg_image a,
                  tag = arg_tag a,
                  version = arg_version a,
                  level = None,
                  path = []\<rparr>
           in and_then (set_repository pa self0) (\<lambda>self1.
              and_then (set_image pa self1) (\<lambda>self2.
              and_then (set_version pa self2) (\<lambda>self3.
              and_then (set_tag self3) (\<lambda>self4.
                (let self5 = clear_version self4;
                     self6 = self5\<lparr>level := get_level self5\<rparr>
                 in Inr (self6\<lparr>path := get_path True self6\<rparr>))))))))"

subsection \<open>\<open>ls\<close>\<close>

text \<open>
  \<open>ls\<close> hands over to one of three listing methods, whose work is done by the vendor
  client; the model records which one is called. A call of \<open>ls\<close> that reaches the end
  of the \<open>if\<close> chain returns \<open>None\<close>.
\<close>

datatype listing = ls_versions | ls_images | ls_repositories

datatype ls_outcome = Calls listing | Returns_None

definition ls :: "locator \<Rightarrow> py_error + ls_outcome" where
  "ls self =
     (if level self = Some ''image'' then Inr (Calls ls_versions)
      else if level self = Some ''repository'' then Inr (Calls ls_images)
      else if level self = Some ''location'' then Inr (Calls ls_repositories)
      else if level self = Some ''project'' then
        Inl (ValueError ''Cannot list items at the project level.'')
      else Inr Returns_None)"

subsection \<open>Segments of a path\<close>

text \<open>
  A value that can stand between two \<open>/\<close> of a fully qualified path and is read back as
  it is: not empty, without \<open>/\<close>, and without \<open>%2F\<close> (which line 37 would decode).
\<close>

abbreviation plain_segment :: "string \<Rightarrow> bool" where
  "plain_segment s \<equiv> s \<noteq> [] \<and> CHR ''/'' \<notin> set s \<and> \<not> contains ''%2F'' s"

section \<open>Facts about the string primitives\<close>

lemma contains_sublist: "contains sub s \<longleftrightarrow> sublist sub s"
  by (induction s) (auto simp: sublist_Cons_right)

lemma str_split_not_Nil: "str_split sep s \<noteq> []"
  by (induction sep s rule: str_split.induct) (auto split: list.splits)

lemma str_split_none: "\<not> contains sep s \<Longrightarrow> str_split sep s = [s]"
  by (induction s) (auto split: list.splits)

lemma str_replace_none: "\<not> contains old s \<Longrightarrow> str_replace old new s = s"
  by (induction s) auto

lemma contains_char: "contains [c] s \<longleftrightarrow> c \<in> set s"
  by (induction s) auto

lemma str_split_char_none: "c \<notin> set a \<Longrightarrow> str_split [c] a = [a]"
  by (simp add: str_split_none contains_char)

lemma str_split_char: "c \<notin> set a \<Longrightarrow> str_split [c] (a @ c # rest) = a # str_split [c] rest"
  by (induction a) (auto split: list.splits)

lemma str_split_join:
  "segs \<noteq> [] \<Longrightarrow> \<forall>s\<in>set segs. c \<notin> set s \<Longrightarrow> str_split [c] (str_join [c] segs) = segs"
  by (induction "[c]" segs rule: str_join.induct) (auto simp: str_split_char str_split_char_none)


lemma prefix_append_char:
  assumes "c \<notin> set sub"
  shows "prefix sub (a @ c # b) \<longleftrightarrow> prefix sub a"
proof
  assume "prefix sub (a @ c # b)"
  then consider "prefix sub a" | us where "sub = a @ us" "prefix us (c # b)"
    by (auto simp: prefix_append)
  then show "prefix sub a"
  proof cases
    case 1 then show ?thesis .
  next
    case 2
    with assms have "us = []" by (cases us) auto
    with 2 show ?thesis by simp
  qed
qed simp

lemma contains_append_char:
  "c \<notin> set sub \<Longrightarrow> contains sub (a @ c # b) \<longleftrightarrow> contains sub a \<or> (sub \<noteq> [] \<and> contains sub b)"
proof (induction a)
  case Nil
  then show ?case by (cases sub) auto
next
  case (Cons x a)
  from Cons.prems have "prefix sub ((x # a) @ c # b) \<longleftrightarrow> prefix sub (x # a)"
    by (rule prefix_append_char)
  with Cons show ?case by auto
qed

lemma contains_set: "contains sub s \<Longrightarrow> set sub \<subseteq> set s"
  by (simp add: contains_sublist set_mono_sublist)

lemma prefix_append_last:
  assumes "sep \<noteq> []" "last sep \<notin> set b"
  shows "prefix sep (a @ b) \<longleftrightarrow> prefix sep a"
proof
  assume "prefix sep (a @ b)"
  then consider "prefix sep a" | us where "sep = a @ us" "prefix us b"
    by (auto simp: prefix_append)
  then show "prefix sep a"
  proof cases
    case 1 then show ?thesis .
  next
    case 2
    have "us = []"
    proof (rule ccontr)
      assume "us \<noteq> []"
      with 2 have "last sep = last us" by simp
      moreover from \<open>us \<noteq> []\<close> have "last us \<in> set us" by simp
      moreover from 2 have "set us \<subseteq> set b" by (simp add: set_mono_prefix)
      ultimately show False using assms by auto
    qed
    with 2 show ?thesis by simp
  qed
qed simp

lemma contains_append_last:
  assumes "sep \<noteq> []" "last sep \<notin> set b"
  shows "contains sep (a @ b) \<longleftrightarrow> contains sep a"
proof (induction a)
  case Nil
  from assms have "\<not> set sep \<subseteq> set b" using last_in_set by blast
  then have "\<not> contains sep b" using contains_set by blast
  with assms show ?case by simp
next
  case (Cons x a)
  from assms have "prefix sep ((x # a) @ b) \<longleftrightarrow> prefix sep (x # a)"
    by (rule prefix_append_last)
  with Cons show ?case by simp
qed

lemma str_split_first:
  assumes "sep \<noteq> []"
  shows "\<not> contains sep (a @ butlast sep) \<Longrightarrow> str_split sep (a @ sep @ rest) = a # str_split sep rest"
proof (induction a)
  case Nil
  with assms show ?case by (cases sep) auto
next
  case (Cons x a)
  have "\<not> prefix sep (x # a @ sep @ rest)"
  proof
    assume p: "prefix sep (x # a @ sep @ rest)"
    from assms have "sep = butlast sep @ [last sep]" by simp
    then have "x # a @ sep @ rest = (x # a @ butlast sep) @ (last sep # rest)"
      by (metis append_Cons append_Nil append_assoc)
    then have "prefix (x # a @ butlast sep) (x # a @ sep @ rest)"
      by (metis prefixI)
    moreover from assms have "length sep \<le> length (x # a @ butlast sep)" by simp
    ultimately have "prefix sep (x # a @ butlast sep)"
      using p prefix_length_prefix by blast
    with Cons.prems show False by simp
  qed
  moreover from Cons have "str_split sep (a @ sep @ rest) = a # str_split sep rest" by simp
  ultimately show ?case by simp
qed

lemma prefix_key_segment:
  assumes "c \<notin> set u" "c \<notin> set a" "prefix (u @ [c]) (a @ c # b)"
  shows "a = u"
proof -
  from assms(3) obtain zs where "a @ c # b = u @ c # zs"
    by (auto simp: prefix_def)
  then have "takeWhile (\<lambda>x. x \<noteq> c) (a @ c # b) = takeWhile (\<lambda>x. x \<noteq> c) (u @ c # zs)"
    by simp
  moreover have "takeWhile (\<lambda>x. x \<noteq> c) (a @ c # b) = a"
    using assms(2) by (induction a) auto
  moreover have "takeWhile (\<lambda>x. x \<noteq> c) (u @ c # zs) = u"
    using assms(1) by (induction u) auto
  ultimately show ?thesis by simp
qed

lemma shorthand_not_qualified:
  assumes "CHR ''/'' \<notin> set R" "R \<noteq> ''projects''"
  shows "\<not> startswith (R @ CHR ''/'' # rest) ''projects/''"
proof
  assume "startswith (R @ CHR ''/'' # rest) ''projects/''"
  then have "prefix (''projects'' @ [CHR ''/'']) (R @ CHR ''/'' # rest)"
    by (simp add: startswith_def)
  with assms(1) have "R = ''projects''"
    by (intro prefix_key_segment[where c="CHR ''/''"]) auto
  with assms(2) show False by simp
qed

lemma contains_join:
  assumes "c \<notin> set sub" "sub \<noteq> []"
  shows "\<forall>s\<in>set segs. \<not> contains sub s \<Longrightarrow> \<not> contains sub (str_join [c] segs)"
proof (induction "[c]" segs rule: str_join.induct)
  case 1
  with assms show ?case by simp
next
  case (2 x)
  then show ?case by simp
next
  case (3 x y ys)
  with assms show ?case by (simp add: contains_append_char del: contains.simps)
qed

lemma split_digest:
  assumes "\<not> contains ''sha256:'' R" "CHR '':'' \<notin> set mid" "\<not> contains ''sha256:'' V"
  shows "str_split ''sha256:'' (R @ mid @ ''sha256:'' @ V) = [R @ mid, V]"
proof -
  have "contains ''sha256:'' ((R @ mid) @ ''sha256'') = contains ''sha256:'' (R @ mid)"
    by (rule contains_append_last) simp_all
  also have "\<dots> = contains ''sha256:'' R"
    using assms(2) by (intro contains_append_last) simp_all
  finally have "\<not> contains ''sha256:'' ((R @ mid) @ butlast ''sha256:'')"
    using assms(1) by simp
  then have "str_split ''sha256:'' ((R @ mid) @ ''sha256:'' @ V)
             = (R @ mid) # str_split ''sha256:'' V"
    by (intro str_split_first) simp_all
  with assms(3) show ?thesis
    by (simp add: str_split_none del: contains.simps str_split.simps)
qed

lemma no_colon_no_digest: "CHR '':'' \<notin> set s \<Longrightarrow> \<not> contains ''sha256:'' s"
  using contains_set [of "''sha256:''" s] by auto

lemma str_join_Cons: "ys \<noteq> [] \<Longrightarrow> str_join sep (x # ys) = x @ sep @ str_join sep ys"
  by (cases ys) simp_all

lemma str_join_snoc: "xs \<noteq> [] \<Longrightarrow> str_join sep (xs @ [y]) = str_join sep xs @ sep @ y"
  by (induction sep xs rule: str_join.induct) simp_all






section \<open>Facts about the steps of \<open>__init__\<close>\<close>

lemma index_raises: "index xs i = Inl e \<Longrightarrow> e = IndexError"
  by (simp add: index_def split: if_splits)

lemma strip_qualified_returns: "\<exists>r. strip_qualified locals = Inr r"
  by (cases locals)
    (simp add: strip_qualified_def and_then_def index_def pass_def Let_def split: sum.splits)

lemma set_repository_returns: "\<exists>r. set_repository pa self = Inr r"
  by (simp add: set_repository_def and_then_def index_def pass_def)

lemma set_image_returns: "\<exists>r. set_image pa self = Inr r"
  by (simp add: set_image_def and_then_def index_def pass_def Let_def)

lemma set_version_returns: "\<exists>r. set_version pa self = Inr r"
  by (simp add: set_version_def and_then_def index_def pass_def)

lemma set_tag_returns: "\<exists>r. set_tag self = Inr r"
  by (simp add: set_tag_def and_then_def image_split_def index_def pass_def
      split: option.splits)

lemma init_final:
  assumes "init env a = Inr self"
  obtains s where
    "self = (clear_version s)\<lparr>level := get_level (clear_version s), path := path self\<rparr>"
  using assms
  by (auto simp: init_def and_then_def Let_def split: sum.splits prod.splits)

lemma init_level:
  assumes "init env a = Inr self"
  shows "level self = get_level self"
  using assms
  by (auto simp: init_def and_then_def Let_def get_level_def split: sum.splits prod.splits)

lemma strip_shorthand:
  "\<not> startswith p ''projects/'' \<Longrightarrow> strip_qualified (p, pr, lo) = Inr (p, pr, lo)"
  by (simp add: strip_qualified_def)

lemma set_repository_eq:
  "set_repository pa self = Inr (self\<lparr>repository := Some (hd (str_split ''/'' pa))\<rparr>)"
  using str_split_not_Nil [of "''/''" pa]
  by (simp add: set_repository_def and_then_def index_def hd_conv_nth)

lemma set_image_none:
  "str_split ''/'' pa = [r] \<Longrightarrow> set_image pa self = Inr (self\<lparr>image_name := None\<rparr>)"
  by (simp add: set_image_def)

lemma set_image_one:
  "str_split ''/'' pa = [r, i] \<Longrightarrow> set_image pa self = Inr (self\<lparr>image_name := Some i\<rparr>)"
  by (simp add: set_image_def and_then_def index_def)

lemma set_image_many:
  "str_split ''/'' pa = r # segs \<Longrightarrow> 2 \<le> length segs \<Longrightarrow>
   set_image pa self = Inr (self\<lparr>image_name := Some (str_join ''/'' (butlast segs))\<rparr>)"
  by (simp add: set_image_def)

lemma set_version_frame: "\<exists>v. set_version pa self = Inr (self\<lparr>version := v\<rparr>)"
proof (cases "1 < length (str_split ''sha256:'' pa)")
  case True
  then have "set_version pa self
             = Inr (self\<lparr>version := Some (str_split ''sha256:'' pa ! 1)\<rparr>)"
    by (simp add: set_version_def and_then_def index_def)
  then show ?thesis ..
next
  case False
  then have "set_version pa self = Inr (self\<lparr>version := version self\<rparr>)"
    by (simp add: set_version_def and_then_def index_def pass_def)
  then show ?thesis ..
qed

lemma set_version_none:
  "\<not> contains ''sha256:'' pa \<Longrightarrow> set_version pa self = Inr self"
  by (simp add: set_version_def and_then_def index_def pass_def str_split_none
      del: contains.simps)

lemma set_version_some:
  "str_split ''sha256:'' pa = x # v # rest \<Longrightarrow>
   set_version pa self = Inr (self\<lparr>version := Some v\<rparr>)"
  by (simp add: set_version_def and_then_def index_def)

lemma set_tag_none: "image_name self = None \<Longrightarrow> set_tag self = Inr self"
  by (simp add: set_tag_def and_then_def image_split_def pass_def)

lemma set_tag_plain:
  "image_name self = Some i \<Longrightarrow> CHR '':'' \<notin> set i \<Longrightarrow> set_tag self = Inr self"
  by (simp add: set_tag_def and_then_def image_split_def index_def pass_def
      str_split_char_none)

lemma set_tag_some:
  "image_name self = Some (i @ CHR '':'' # t) \<Longrightarrow> CHR '':'' \<notin> set i \<Longrightarrow>
   set_tag self = Inr (self\<lparr>tag := Some (hd (str_split '':'' t)), image_name := Some i\<rparr>)"
  using str_split_not_Nil [of "'':''" t]
  by (simp add: set_tag_def and_then_def image_split_def index_def str_split_char hd_conv_nth)

lemma init_steps:
  assumes "strip_qualified (arg_path a, arg_project a, arg_location a) = Inr (pa, pr, lo)"
    and "set_repository pa
           \<lparr>project = py_or (py_or pr (environ_PROJECT env)) (auth_default_project env),
            location = lo, repository = arg_repository a, image_name = arg_image a,
            tag = arg_tag a, version = arg_version a, level = None, path = []\<rparr> = Inr s1"
    and "set_image pa s1 = Inr s2"
    and "set_version pa s2 = Inr s3"
    and "set_tag s3 = Inr s4"
  shows "init env a =
         Inr ((clear_version s4)
               \<lparr>level := get_level (clear_version s4),
                path := get_path True
                  ((clear_version s4)\<lparr>level := get_level (clear_version s4)\<rparr>)\<rparr>)"
  using assms by (simp add: init_def and_then_def Let_def)

lemma strip_qualified_clean:
  assumes "startswith p ''projects/''"
    and "slice_1_2 (str_split ''/'' p) = vals" and "vals \<noteq> []"
    and "\<forall>s\<in>set vals. CHR ''/'' \<notin> set s \<and> \<not> contains ''%2F'' s"
  shows "strip_qualified (p, pr, lo) =
         Inr (str_join ''/'' (drop 2 vals), Some (hd vals),
              if 1 < length vals then Some (vals ! 1) else None)"
proof -
  from assms(4) have "\<not> contains ''%2F'' (str_join ''/'' vals)"
    by (intro contains_join) auto
  then have "str_replace ''%2F'' ''/'' (str_join ''/'' vals) = str_join ''/'' vals"
    by (rule str_replace_none)
  moreover from assms(3,4) have "str_split ''/'' (str_join ''/'' vals) = vals"
    by (intro str_split_join) auto
  ultimately show ?thesis
    using assms(1,2,3)
    by (simp add: strip_qualified_def and_then_def index_def pass_def hd_conv_nth
        del: str_split.simps str_replace.simps)
qed

lemma init_qualified_steps:
  assumes strip: "strip_qualified (p, None, Some ''europe-west2'') = Inr (pa, Some P, lo)"
    and P: "P \<noteq> []"
    and rep: "hd (str_split ''/'' pa) = r"
    and img: "\<And>s. set_image pa s = Inr (s\<lparr>image_name := img\<rparr>)"
    and ver: "\<And>s. version s = None \<Longrightarrow> set_version pa s = Inr (s\<lparr>version := v\<rparr>)"
    and colon: "\<And>i. img = Some i \<Longrightarrow> CHR '':'' \<notin> set i"
  shows "\<exists>self. init env (default_args\<lparr>arg_path := p\<rparr>) = Inr self
           \<and> project self = Some P \<and> location self = lo \<and> repository self = Some r
           \<and> image_name self = img \<and> version self = v \<and> tag self = None
           \<and> level self = get_level self"
proof -
  define a where "a = default_args\<lparr>arg_path := p\<rparr>"
  define s0 where
    "s0 = \<lparr>project = py_or (py_or (Some P) (environ_PROJECT env)) (auth_default_project env),
           location = lo, repository = arg_repository a,
           image_name = arg_image a, tag = arg_tag a, version = arg_version a,
           level = None, path = []\<rparr>"
  from strip have 0: "strip_qualified (arg_path a, arg_project a, arg_location a)
                      = Inr (pa, Some P, lo)"
    by (simp add: a_def default_args_def)
  have 1: "set_repository pa s0 = Inr (s0\<lparr>repository := Some r\<rparr>)"
    by (simp add: set_repository_eq rep)
  have 2: "set_image pa (s0\<lparr>repository := Some r\<rparr>)
           = Inr (s0\<lparr>repository := Some r, image_name := img\<rparr>)"
    by (simp add: img)
  have 3: "set_version pa (s0\<lparr>repository := Some r, image_name := img\<rparr>)
           = Inr (s0\<lparr>repository := Some r, image_name := img, version := v\<rparr>)"
    by (subst ver) (simp_all add: s0_def a_def default_args_def)
  have 4: "set_tag (s0\<lparr>repository := Some r, image_name := img, version := v\<rparr>)
           = Inr (s0\<lparr>repository := Some r, image_name := img, version := v\<rparr>)"
  proof (cases img)
    case None
    then show ?thesis by (intro set_tag_none) simp
  next
    case (Some i)
    with colon show ?thesis by (intro set_tag_plain [where i = i]) simp_all
  qed
  let ?s4 = "s0\<lparr>repository := Some r, image_name := img, version := v\<rparr>"
  have i: "init env a = Inr ((clear_version ?s4)
               \<lparr>level := get_level (clear_version ?s4),
                path := get_path True
                  ((clear_version ?s4)\<lparr>level := get_level (clear_version ?s4)\<rparr>)\<rparr>)"
    using 0 1 2 3 4 unfolding s0_def by (rule init_steps)
  have "tag ?s4 = None"
    by (simp add: s0_def a_def default_args_def)
  then have c: "clear_version ?s4 = ?s4"
    by (simp add: clear_version_def truthy_def)
  define self where "self = ?s4\<lparr>level := get_level ?s4,
      path := get_path True (?s4\<lparr>level := get_level ?s4\<rparr>)\<rparr>"
  from i c have r: "init env a = Inr self"
    by (simp add: self_def)
  then have "level self = get_level self"
    by (rule init_level)
  moreover from P have "project self = Some P" "location self = lo" "repository self = Some r"
    "image_name self = img" "version self = v" "tag self = None"
    by (simp_all add: self_def s0_def a_def py_or_def truthy_def default_args_def)
  ultimately show ?thesis
    using r unfolding a_def by blast
qed

lemma image_of_empty_path: "set_image [] s = Inr (s\<lparr>image_name := None\<rparr>)"
  by (rule set_image_none [where r = "[]"]) simp

lemma version_of_empty_path: "version s = None \<Longrightarrow> set_version [] s = Inr (s\<lparr>version := None\<rparr>)"
  by (simp add: set_version_none)

lemma qualified_project:
  assumes "plain_segment P"
  shows "\<exists>self. init env (default_args\<lparr>arg_path := ''projects/'' @ P\<rparr>) = Inr self
           \<and> project self = Some P \<and> location self = None \<and> repository self = Some []
           \<and> image_name self = None \<and> version self = None \<and> tag self = None
           \<and> level self = get_level self"
proof (rule init_qualified_steps [where pa = "[]"])
  have "slice_1_2 (str_split ''/'' (''projects/'' @ P)) = [P]"
    using assms by (simp add: str_split_char_none)
  then have "strip_qualified (''projects/'' @ P, None, Some ''europe-west2'') =
         Inr (str_join ''/'' (drop 2 [P]), Some (hd [P]),
              if 1 < length [P] then Some ([P] ! 1) else None)"
    using assms by (intro strip_qualified_clean) (simp_all add: startswith_def)
  then show "strip_qualified (''projects/'' @ P, None, Some ''europe-west2'') = Inr ([], Some P, None)"
    by simp
qed (use assms in \<open>simp_all add: image_of_empty_path version_of_empty_path\<close>)

lemma qualified_location:
  assumes "plain_segment P" "plain_segment L"
  shows "\<exists>self. init env (default_args\<lparr>arg_path :=
             ''projects/'' @ P @ ''/locations/'' @ L\<rparr>) = Inr self
           \<and> project self = Some P \<and> location self = Some L \<and> repository self = Some []
           \<and> image_name self = None \<and> version self = None \<and> tag self = None
           \<and> level self = get_level self"
proof (rule init_qualified_steps [where pa = "[]"])
  let ?p = "''projects/'' @ P @ ''/locations/'' @ L"
  have "slice_1_2 (str_split ''/'' ?p) = [P, L]"
    using assms by (simp add: str_split_char str_split_char_none)
  then have "strip_qualified (?p, None, Some ''europe-west2'') =
         Inr (str_join ''/'' (drop 2 [P, L]), Some (hd [P, L]),
              if 1 < length [P, L] then Some ([P, L] ! 1) else None)"
    using assms by (intro strip_qualified_clean) (simp_all add: startswith_def)
  then show "strip_qualified (?p, None, Some ''europe-west2'') = Inr ([], Some P, Some L)"
    by simp
qed (use assms in \<open>simp_all add: image_of_empty_path version_of_empty_path\<close>)

lemma qualified_repository:
  assumes "plain_segment P" "plain_segment L" "plain_segment R" "\<not> contains ''sha256:'' R"
  shows "\<exists>self. init env (default_args\<lparr>arg_path :=
             ''projects/'' @ P @ ''/locations/'' @ L @ ''/repositories/'' @ R\<rparr>) = Inr self
           \<and> project self = Some P \<and> location self = Some L \<and> repository self = Some R
           \<and> image_name self = None \<and> version self = None \<and> tag self = None
           \<and> level self = get_level self"
proof (rule init_qualified_steps [where pa = R])
  let ?p = "''projects/'' @ P @ ''/locations/'' @ L @ ''/repositories/'' @ R"
  have "slice_1_2 (str_split ''/'' ?p) = [P, L, R]"
    using assms by (simp add: str_split_char str_split_char_none)
  then have "strip_qualified (?p, None, Some ''europe-west2'') =
         Inr (str_join ''/'' (drop 2 [P, L, R]), Some (hd [P, L, R]),
              if 1 < length [P, L, R] then Some ([P, L, R] ! 1) else None)"
    using assms by (intro strip_qualified_clean) (simp_all add: startswith_def)
  then show "strip_qualified (?p, None, Some ''europe-west2'') = Inr (R, Some P, Some L)"
    by simp
  have s: "str_split ''/'' R = [R]"
    using assms by (simp add: str_split_char_none)
  then show "hd (str_split ''/'' R) = R" by simp
  show "set_image R s = Inr (s\<lparr>image_name := None\<rparr>)" for s
    using s by (rule set_image_none)
  show "set_version R s = Inr (s\<lparr>version := None\<rparr>)" if "version s = None" for s
    using assms(4) that by (simp add: set_version_none)
qed (use assms in simp_all)

lemma qualified_image:
  assumes "plain_segment P" "plain_segment L" "plain_segment R" "\<not> contains ''sha256:'' R"
    and "plain_segment I" "CHR '':'' \<notin> set I"
  shows "\<exists>self. init env (default_args\<lparr>arg_path :=
             ''projects/'' @ P @ ''/locations/'' @ L @ ''/repositories/'' @ R
               @ ''/packages/'' @ I\<rparr>) = Inr self
           \<and> project self = Some P \<and> location self = Some L \<and> repository self = Some R
           \<and> image_name self = Some I \<and> version self = None \<and> tag self = None
           \<and> level self = get_level self"
proof (rule init_qualified_steps [where pa = "R @ CHR ''/'' # I"])
  let ?p = "''projects/'' @ P @ ''/locations/'' @ L @ ''/repositories/'' @ R
               @ ''/packages/'' @ I"
  have "slice_1_2 (str_split ''/'' ?p) = [P, L, R, I]"
    using assms by (simp add: str_split_char str_split_char_none)
  then have "strip_qualified (?p, None, Some ''europe-west2'') =
         Inr (str_join ''/'' (drop 2 [P, L, R, I]), Some (hd [P, L, R, I]),
              if 1 < length [P, L, R, I] then Some ([P, L, R, I] ! 1) else None)"
    using assms by (intro strip_qualified_clean) (simp_all add: startswith_def)
  then show "strip_qualified (?p, None, Some ''europe-west2'')
             = Inr (R @ CHR ''/'' # I, Some P, Some L)"
    by simp
  have s: "str_split ''/'' (R @ CHR ''/'' # I) = [R, I]"
    using assms by (simp add: str_split_char str_split_char_none)
  then show "hd (str_split ''/'' (R @ CHR ''/'' # I)) = R" by simp
  show "set_image (R @ CHR ''/'' # I) s = Inr (s\<lparr>image_name := Some I\<rparr>)" for s
    using s by (rule set_image_one)
  have "contains ''sha256:'' (R @ CHR ''/'' # I) = contains ''sha256:'' R"
    using assms(6) by (intro contains_append_last) simp_all
  with assms(4) have "\<not> contains ''sha256:'' (R @ CHR ''/'' # I)" by simp
  then show "set_version (R @ CHR ''/'' # I) s = Inr (s\<lparr>version := None\<rparr>)"
    if "version s = None" for s
    using that by (simp add: set_version_none del: contains.simps)
qed (use assms in simp_all)

lemma qualified_digest:
  assumes "plain_segment P" "plain_segment L" "plain_segment R" "\<not> contains ''sha256:'' R"
    and "plain_segment I" "CHR '':'' \<notin> set I"
    and "plain_segment V" "\<not> contains ''sha256:'' V"
  shows "\<exists>self. init env (default_args\<lparr>arg_path :=
             ''projects/'' @ P @ ''/locations/'' @ L @ ''/repositories/'' @ R
               @ ''/packages/'' @ I @ ''/versions/sha256:'' @ V\<rparr>) = Inr self
           \<and> project self = Some P \<and> location self = Some L \<and> repository self = Some R
           \<and> image_name self = Some I \<and> version self = Some V \<and> tag self = None
           \<and> level self = get_level self"
proof (rule init_qualified_steps [where pa = "R @ (CHR ''/'' # I @ ''/'') @ ''sha256:'' @ V"])
  let ?p = "''projects/'' @ P @ ''/locations/'' @ L @ ''/repositories/'' @ R
               @ ''/packages/'' @ I @ ''/versions/sha256:'' @ V"
  let ?pa = "R @ (CHR ''/'' # I @ ''/'') @ ''sha256:'' @ V"
  let ?vals = "[P, L, R, I, ''sha256:'' @ V]"
  have "slice_1_2 (str_split ''/'' ?p) = ?vals"
    using assms by (simp add: str_split_char str_split_char_none)
  then have "strip_qualified (?p, None, Some ''europe-west2'') =
         Inr (str_join ''/'' (drop 2 ?vals), Some (hd ?vals),
              if 1 < length ?vals then Some (?vals ! 1) else None)"
    using assms by (intro strip_qualified_clean) (simp_all add: startswith_def)
  then show "strip_qualified (?p, None, Some ''europe-west2'') = Inr (?pa, Some P, Some L)"
    by simp
  have s: "str_split ''/'' ?pa = [R, I, ''sha256:'' @ V]"
    using assms by (simp add: str_split_char str_split_char_none)
  then show "hd (str_split ''/'' ?pa) = R" by simp
  show "set_image ?pa s = Inr (s\<lparr>image_name := Some I\<rparr>)" for s
    using set_image_many [OF s] by simp
  have "str_split ''sha256:'' ?pa = [R @ (CHR ''/'' # I @ ''/''), V]"
    using assms(4,6,8) by (intro split_digest) simp_all
  then show "set_version ?pa s = Inr (s\<lparr>version := Some V\<rparr>)" for s
    by (rule set_version_some)
qed (use assms in simp_all)








lemma set_image_uniform: "\<exists>img. \<forall>s. set_image pa s = Inr (s\<lparr>image_name := img\<rparr>)"
proof -
  define pieces where "pieces = drop 1 (str_split ''/'' pa)"
  consider "length pieces > 1" | "pieces = []" | x where "pieces = [x]"
    by (cases pieces rule: list.exhaust; cases "tl pieces") auto
  then show ?thesis
  proof cases
    case 1
    then have "\<forall>s. set_image pa s
        = Inr (s\<lparr>image_name := Some (str_join ''/'' (butlast pieces))\<rparr>)"
      by (simp add: set_image_def pieces_def)
    then show ?thesis ..
  next
    case 2
    then have "\<forall>s. set_image pa s = Inr (s\<lparr>image_name := None\<rparr>)"
      by (simp add: set_image_def pieces_def)
    then show ?thesis ..
  next
    case 3
    obtain r rest where "str_split ''/'' pa = r # rest"
      using str_split_not_Nil [of "''/''" pa] by (cases "str_split ''/'' pa") auto
    with 3 have "str_split ''/'' pa = [r, x]"
      by (simp add: pieces_def)
    then have "\<forall>s. set_image pa s = Inr (s\<lparr>image_name := Some x\<rparr>)"
      by (simp add: set_image_one)
    then show ?thesis ..
  qed
qed

section \<open>Parsing a fully qualified path\<close>

text \<open>
  Claim C1, amended. For the path
  \<open>projects/P/locations/L/repositories/R/packages/I/versions/sha256:V\<close>, where
  \<open>P\<close>, \<open>L\<close>, \<open>R\<close>, \<open>I\<close>, \<open>V\<close> are non-empty and contain no \<open>/\<close>, \<open>I\<close> and \<open>V\<close> contain
  no \<open>:\<close>, and moreover no segment contains \<open>%2F\<close> and \<open>R\<close> does not contain
  \<open>sha256:\<close>, construction with default keyword arguments gives project \<open>P\<close>,
  location \<open>L\<close>, repository \<open>R\<close>, image \<open>I\<close>, version \<open>V\<close>, no tag, and level
  \<open>digest\<close>.
\<close>

theorem init_qualified_digest:
  assumes "P \<noteq> []" "L \<noteq> []" "R \<noteq> []" "I \<noteq> []" "V \<noteq> []"
    and "CHR ''/'' \<notin> set P" "CHR ''/'' \<notin> set L" "CHR ''/'' \<notin> set R"
        "CHR ''/'' \<notin> set I" "CHR ''/'' \<notin> set V"
    and "CHR '':'' \<notin> set I" "CHR '':'' \<notin> set V"
    and "\<not> contains ''%2F'' P" "\<not> contains ''%2F'' L" "\<not> contains ''%2F'' R"
        "\<not> contains ''%2F'' I" "\<not> contains ''%2F'' V"
    and "\<not> contains ''sha256:'' R"
  shows "\<exists>self. init env (default_args\<lparr>arg_path :=
             ''projects/'' @ P @ ''/locations/'' @ L @ ''/repositories/'' @ R
               @ ''/packages/'' @ I @ ''/versions/sha256:'' @ V\<rparr>) = Inr self
           \<and> project self = Some P \<and> location self = Some L \<and> repository self = Some R
           \<and> image_name self = Some I \<and> version self = Some V \<and> tag self = None
           \<and> level self = Some ''digest''"
proof -
  define p where "p = ''projects/'' @ P @ ''/locations/'' @ L @ ''/repositories/'' @ R
               @ ''/packages/'' @ I @ ''/versions/sha256:'' @ V"
  define a where "a = default_args\<lparr>arg_path := p\<rparr>"
  define pa where "pa = R @ (CHR ''/'' # I @ ''/'') @ ''sha256:'' @ V"
  define s0 where
    "s0 = \<lparr>project = py_or (py_or (Some P) (environ_PROJECT env)) (auth_default_project env),
           location = Some L, repository = arg_repository a,
           image_name = arg_image a, tag = arg_tag a, version = arg_version a,
           level = None, path = []\<rparr>"
  have q: "startswith p ''projects/''"
    by (simp add: p_def startswith_def)
  have sp: "slice_1_2 (str_split ''/'' p) = [P, L, R, I, ''sha256:'' @ V]"
    using assms(6-10) by (simp add: p_def str_split_char str_split_char_none)
  have "strip_qualified (p, None, Some ''europe-west2'') =
         Inr (str_join ''/'' (drop 2 [P, L, R, I, ''sha256:'' @ V]), Some (hd [P, L, R, I, ''sha256:'' @ V]),
              if 1 < length [P, L, R, I, ''sha256:'' @ V] then Some ([P, L, R, I, ''sha256:'' @ V] ! 1) else None)"
    using q sp assms(6-10,13-17) by (intro strip_qualified_clean) auto
  then have 0: "strip_qualified (arg_path a, arg_project a, arg_location a) = Inr (pa, Some P, Some L)"
    by (simp add: a_def default_args_def pa_def)
  have s: "str_split ''/'' pa = [R, I, ''sha256:'' @ V]"
    using assms(6-10) by (simp add: pa_def str_split_char str_split_char_none)
  have 1: "set_repository pa s0 = Inr (s0\<lparr>repository := Some R\<rparr>)"
    by (simp add: set_repository_eq s)
  have 2: "set_image pa (s0\<lparr>repository := Some R\<rparr>)
           = Inr (s0\<lparr>repository := Some R, image_name := Some I\<rparr>)"
    using set_image_many [OF s] by simp
  have "\<not> contains ''sha256:'' V"
    using assms(12) by (rule no_colon_no_digest)
  with assms(11,18) have "str_split ''sha256:'' pa = [R @ (CHR ''/'' # I @ ''/''), V]"
    unfolding pa_def by (intro split_digest) simp_all
  then have 3: "set_version pa (s0\<lparr>repository := Some R, image_name := Some I\<rparr>)
           = Inr (s0\<lparr>repository := Some R, image_name := Some I, version := Some V\<rparr>)"
    by (simp add: set_version_some)
  have 4: "set_tag (s0\<lparr>repository := Some R, image_name := Some I, version := Some V\<rparr>)
           = Inr (s0\<lparr>repository := Some R, image_name := Some I, version := Some V\<rparr>)"
    using assms(11) by (intro set_tag_plain [where i = I]) simp_all
  let ?s4 = "s0\<lparr>repository := Some R, image_name := Some I, version := Some V\<rparr>"
  have "init env a = Inr ((clear_version ?s4)
               \<lparr>level := get_level (clear_version ?s4),
                path := get_path True
                  ((clear_version ?s4)\<lparr>level := get_level (clear_version ?s4)\<rparr>)\<rparr>)"
    using 0 1 2 3 4 unfolding s0_def by (rule init_steps)
  then show ?thesis
    using assms(1,5)
    by (simp add: a_def p_def s0_def clear_version_def truthy_def py_or_def default_args_def get_level_def)
qed

theorem init_qualified_digest_witness:
  "\<exists>self. init \<lparr>environ_PROJECT = None, auth_default_project = None\<rparr>
       (default_args\<lparr>arg_path :=
          ''projects/p1/locations/us/repositories/r1/packages/img1/versions/sha256:abc123''\<rparr>)
       = Inr self
     \<and> project self = Some ''p1'' \<and> location self = Some ''us''
     \<and> repository self = Some ''r1'' \<and> image_name self = Some ''img1''
     \<and> version self = Some ''abc123'' \<and> tag self = None \<and> level self = Some ''digest''"
  using init_qualified_digest [where P = "''p1''" and L = "''us''" and R = "''r1''"
      and I = "''img1''" and V = "''abc123''"
      and env = "\<lparr>environ_PROJECT = None, auth_default_project = None\<rparr>"]
  by simp

text \<open>
  Without the added conditions the claim fails: line 37 decodes \<open>%2F\<close> to \<open>/\<close> before
  the segments are read, so the project segment \<open>a%2Fb\<close> gives project \<open>a\<close> and moves
  every later field by one place.
\<close>

theorem init_qualified_digest_counterexample:
  "init \<lparr>environ_PROJECT = None, auth_default_project = None\<rparr>
       (default_args\<lparr>arg_path :=
          ''projects/a%2Fb/locations/l/repositories/r/packages/i/versions/sha256:v''\<rparr>)
     = Inr \<lparr>project = Some ''a'', location = Some ''b'', repository = Some ''l'',
             image_name = Some ''r/i'', tag = None, version = Some ''v'',
             level = Some ''digest'', path = ''a/b/l/r/versions''\<rparr>
   \<and> project \<lparr>project = Some ''a'', location = Some ''b'', repository = Some ''l'',
             image_name = Some ''r/i'', tag = None, version = Some ''v'',
             level = Some ''digest'', path = ''a/b/l/r/versions''\<rparr> \<noteq> Some ''a%2Fb''"
proof -
  have "init \<lparr>environ_PROJECT = None, auth_default_project = None\<rparr>
       (default_args\<lparr>arg_path :=
          ''projects/a%2Fb/locations/l/repositories/r/packages/i/versions/sha256:v''\<rparr>)
     = Inr \<lparr>project = Some ''a'', location = Some ''b'', repository = Some ''l'',
             image_name = Some ''r/i'', tag = None, version = Some ''v'',
             level = Some ''digest'', path = ''a/b/l/r/versions''\<rparr>"
    by code_simp
  then show ?thesis by simp
qed

section \<open>Parsing the shorthand \<open>repository/image:tag\<close>\<close>

text \<open>
  Claim C2, amended. For the path \<open>R/I:T\<close>, where \<open>R\<close>, \<open>I\<close>, \<open>T\<close> are non-empty,
  \<open>I\<close> contains no \<open>/\<close> and no \<open>:\<close>, \<open>T\<close> contains no \<open>:\<close>, and moreover \<open>R\<close> and \<open>T\<close>
  contain no \<open>/\<close> and \<open>R\<close> is not the word \<open>projects\<close>, construction (with any keyword
  arguments) gives repository \<open>R\<close>, image \<open>I\<close>, tag \<open>T\<close> and no version.
\<close>

theorem init_repository_image_tag:
  assumes "R \<noteq> []" "I \<noteq> []" "T \<noteq> []"
    and "CHR ''/'' \<notin> set I" "CHR '':'' \<notin> set I" "CHR '':'' \<notin> set T"
    and "CHR ''/'' \<notin> set R" "R \<noteq> ''projects''" "CHR ''/'' \<notin> set T"
  shows "\<exists>self. init env (a\<lparr>arg_path := R @ ''/'' @ I @ '':'' @ T\<rparr>) = Inr self
           \<and> repository self = Some R \<and> image_name self = Some I
           \<and> tag self = Some T \<and> version self = None"
proof -
  define p where "p = R @ CHR ''/'' # I @ CHR '':'' # T"
  define a' where "a' = a\<lparr>arg_path := p\<rparr>"
  define s0 where
    "s0 = \<lparr>project = py_or (py_or (arg_project a') (environ_PROJECT env))
                       (auth_default_project env),
           location = arg_location a', repository = arg_repository a',
           image_name = arg_image a', tag = arg_tag a', version = arg_version a',
           level = None, path = []\<rparr>"
  have "\<not> startswith p ''projects/''"
    unfolding p_def using assms(7,8) by (rule shorthand_not_qualified)
  then have 0: "strip_qualified (arg_path a', arg_project a', arg_location a')
                = Inr (p, arg_project a', arg_location a')"
    by (simp add: a'_def strip_shorthand)
  have s: "str_split ''/'' p = [R, I @ CHR '':'' # T]"
    using assms by (simp add: p_def str_split_char str_split_char_none)
  have 1: "set_repository p s0 = Inr (s0\<lparr>repository := Some R\<rparr>)"
    by (simp add: set_repository_eq s)
  have 2: "set_image p (s0\<lparr>repository := Some R\<rparr>)
           = Inr (s0\<lparr>repository := Some R, image_name := Some (I @ CHR '':'' # T)\<rparr>)"
    using set_image_one [OF s] by simp
  obtain v where 3: "set_version p (s0\<lparr>repository := Some R, image_name := Some (I @ CHR '':'' # T)\<rparr>)
           = Inr (s0\<lparr>repository := Some R, image_name := Some (I @ CHR '':'' # T), version := v\<rparr>)"
    using set_version_frame by blast
  have 4: "set_tag (s0\<lparr>repository := Some R, image_name := Some (I @ CHR '':'' # T), version := v\<rparr>)
           = Inr (s0\<lparr>repository := Some R, image_name := Some I, version := v, tag := Some T\<rparr>)"
    using assms(5,6)
    by (subst set_tag_some [where i = I and t = T]) (simp_all add: str_split_char_none)
  have "init env a' = Inr ((clear_version (s0\<lparr>repository := Some R, image_name := Some I, version := v, tag := Some T\<rparr>))
               \<lparr>level := get_level (clear_version (s0\<lparr>repository := Some R, image_name := Some I, version := v, tag := Some T\<rparr>)),
                path := get_path True
                  ((clear_version (s0\<lparr>repository := Some R, image_name := Some I, version := v, tag := Some T\<rparr>))\<lparr>level := get_level (clear_version (s0\<lparr>repository := Some R, image_name := Some I, version := v, tag := Some T\<rparr>))\<rparr>)\<rparr>)"
    using 0 1 2 3 4 unfolding s0_def by (rule init_steps)
  then show ?thesis
    using assms(3) by (simp add: a'_def p_def clear_version_def truthy_def)
qed

theorem init_repository_image_tag_witness:
  "\<exists>self. init \<lparr>environ_PROJECT = None, auth_default_project = None\<rparr>
       (default_args\<lparr>arg_path := ''repo/img:latest''\<rparr>) = Inr self
     \<and> repository self = Some ''repo'' \<and> image_name self = Some ''img''
     \<and> tag self = Some ''latest'' \<and> version self = None"
  using init_repository_image_tag [where R = "''repo''" and I = "''img''" and T = "''latest''"
      and env = "\<lparr>environ_PROJECT = None, auth_default_project = None\<rparr>"
      and a = default_args]
  by simp

text \<open>
  Without the added conditions the claim fails: a path whose first segment is
  \<open>projects\<close> is read as a fully qualified one (line 34), so \<open>projects/i:t\<close> gives
  project \<open>i:t\<close> and an empty repository.
\<close>

theorem init_repository_image_tag_counterexample:
  "init \<lparr>environ_PROJECT = None, auth_default_project = None\<rparr>
       (default_args\<lparr>arg_path := ''projects/i:t''\<rparr>)
     = Inr \<lparr>project = Some ''i:t'', location = None, repository = Some [],
             image_name = None, tag = None, version = None,
             level = Some ''project'', path = ''i:t''\<rparr>
   \<and> repository \<lparr>project = Some ''i:t'', location = None, repository = Some [],
             image_name = None, tag = None, version = None,
             level = Some ''project'', path = ''i:t''\<rparr> \<noteq> Some ''projects''"
proof -
  have "init \<lparr>environ_PROJECT = None, auth_default_project = None\<rparr>
       (default_args\<lparr>arg_path := ''projects/i:t''\<rparr>)
     = Inr \<lparr>project = Some ''i:t'', location = None, repository = Some [],
             image_name = None, tag = None, version = None,
             level = Some ''project'', path = ''i:t''\<rparr>"
    by code_simp
  then show ?thesis by simp
qed

section \<open>Keyword arguments and the path\<close>

text \<open>
  The \<open>repository\<close> and \<open>image\<close> arguments never reach the locator. Lines 58 to 71 assign
  both fields from the path inside \<open>try\<close> blocks whose handler \<open>except IndexError: pass\<close>
  would keep the keyword value, but \<open>path.split("/")[0]\<close> and \<open>path.split("/")[1:]\<close>
  cannot raise: \<open>split\<close> returns at least one piece and a slice never raises. So
  construction with and without the two arguments gives the same result.
\<close>

lemma repository_image_keywords_unused:
  "init env (a\<lparr>arg_repository := r, arg_image := i\<rparr>) = init env a"
proof -
  obtain pa pr lo where
    strip: "strip_qualified (arg_path a, arg_project a, arg_location a) = Inr (pa, pr, lo)"
    using strip_qualified_returns by (metis prod_cases3)
  obtain img where img: "\<And>s. set_image pa s = Inr (s\<lparr>image_name := img\<rparr>)"
    using set_image_uniform [of pa] by blast
  show ?thesis
    using strip by (simp add: init_def and_then_def set_repository_eq img)
qed

text \<open>
  Claim C3. With keyword arguments and a path, the keyword arguments seed the fields and
  the path overwrites a field only when it has a value for it; with the empty default
  path every field is its keyword argument. The code breaks this at
  \<open>ArtifactRegistry(repository="r", image="i")\<close>: the repository of the locator is the
  empty string and its image is \<open>None\<close>, and its level is \<open>location\<close>.
\<close>

theorem keywords_repository_image_lost:
  "init \<lparr>environ_PROJECT = None, auth_default_project = None\<rparr>
       (default_args\<lparr>arg_repository := Some ''r'', arg_image := Some ''i''\<rparr>)
     = Inr \<lparr>project = None, location = Some ''europe-west2'', repository = Some [],
             image_name = None, tag = None, version = None,
             level = Some ''location'', path = ''None/europe-west2''\<rparr>"
  by code_simp

section \<open>Round trip through the canonical path\<close>

text \<open>
  Claim C4, amended. Take a constructed locator without tag whose project is a plain
  segment and whose other fields are filled from the top down to some level: nothing
  more (location \<open>None\<close>, repository empty as the parser leaves it); or a location; or a
  location and a repository; or these and an image; or these and a version. Every field
  filled is a plain segment (not empty, no \<open>/\<close>, no \<open>%2F\<close>), the repository contains no
  \<open>sha256:\<close>, the image no \<open>:\<close>, the version no \<open>sha256:\<close>, and the fields not filled are
  \<open>None\<close>. Then constructing a locator from the fully qualified path
  \<open>_get_path(shorten=False)\<close>, with default keyword arguments and the same environment,
  gives the same project, location, repository, image, version, tag and level.
\<close>

theorem roundtrip_qualified_path:
  assumes "init env a = Inr self"
    and "tag self = None"
    and "project self = Some P" "plain_segment P"
    and "(location self = None \<and> repository self = Some []
            \<and> image_name self = None \<and> version self = None)
       \<or> (location self = Some L \<and> plain_segment L \<and> repository self = Some []
            \<and> image_name self = None \<and> version self = None)
       \<or> (location self = Some L \<and> plain_segment L
            \<and> repository self = Some R \<and> plain_segment R \<and> \<not> contains ''sha256:'' R
            \<and> image_name self = None \<and> version self = None)
       \<or> (location self = Some L \<and> plain_segment L
            \<and> repository self = Some R \<and> plain_segment R \<and> \<not> contains ''sha256:'' R
            \<and> image_name self = Some I \<and> plain_segment I \<and> CHR '':'' \<notin> set I
            \<and> version self = None)
       \<or> (location self = Some L \<and> plain_segment L
            \<and> repository self = Some R \<and> plain_segment R \<and> \<not> contains ''sha256:'' R
            \<and> image_name self = Some I \<and> plain_segment I \<and> CHR '':'' \<notin> set I
            \<and> version self = Some V \<and> plain_segment V \<and> \<not> contains ''sha256:'' V)"
  shows "\<exists>self'. init env (default_args\<lparr>arg_path := get_path False self\<rparr>) = Inr self'
           \<and> project self' = project self \<and> location self' = location self
           \<and> repository self' = repository self \<and> image_name self' = image_name self
           \<and> version self' = version self \<and> tag self' = tag self
           \<and> level self' = level self"
proof -
  from assms(1) have lv: "level self = get_level self"
    by (rule init_level)
  have same: "get_level x = get_level self"
    if "project x = project self" "location x = location self"
      "repository x = repository self" "image_name x = image_name self"
      "version x = version self" "tag x = tag self" for x
    using that by (simp add: get_level_def)
  have goal: ?thesis
    if "\<exists>x. init env (default_args\<lparr>arg_path := get_path False self\<rparr>) = Inr x
           \<and> project x = project self \<and> location x = location self
           \<and> repository x = repository self \<and> image_name x = image_name self
           \<and> version x = version self \<and> tag x = tag self
           \<and> level x = get_level x"
    using that lv same by metis
  have c_project: ?thesis
    if "location self = None" "repository self = Some []"
      "image_name self = None" "version self = None"
  proof -
    from that assms(2-4) have "get_level self = Some ''project''"
      by (simp add: get_level_def truthy_def)
    with lv assms(3) have "get_path False self = ''projects/'' @ P"
      by (simp add: get_path_def fmt_def)
    with qualified_project [of P env] assms(2-4) that show ?thesis
      by (intro goal) simp
  qed
  have c_location: ?thesis
    if "location self = Some L" "L \<noteq> []" "CHR ''/'' \<notin> set L" "\<not> contains ''%2F'' L"
      "repository self = Some []" "image_name self = None" "version self = None"
  proof -
    from that assms(2-4) have "get_level self = Some ''location''"
      by (simp add: get_level_def truthy_def)
    with lv assms(3) that have
      "get_path False self = ''projects/'' @ P @ ''/locations/'' @ L"
      by (simp add: get_path_def fmt_def)
    with qualified_location [of P L env] assms(2-4) that show ?thesis
      by (intro goal) simp
  qed
  have c_repository: ?thesis
    if "location self = Some L" "L \<noteq> []" "CHR ''/'' \<notin> set L" "\<not> contains ''%2F'' L"
      "repository self = Some R" "R \<noteq> []" "CHR ''/'' \<notin> set R" "\<not> contains ''%2F'' R"
      "\<not> contains ''sha256:'' R" "image_name self = None" "version self = None"
  proof -
    from that assms(2-4) have "get_level self = Some ''repository''"
      by (simp add: get_level_def truthy_def)
    with lv assms(3) that have "get_path False self
        = ''projects/'' @ P @ ''/locations/'' @ L @ ''/repositories/'' @ R"
      by (simp add: get_path_def fmt_def)
    with qualified_repository [of P L R env] assms(2-4) that show ?thesis
      by (intro goal) simp
  qed
  have c_image: ?thesis
    if "location self = Some L" "L \<noteq> []" "CHR ''/'' \<notin> set L" "\<not> contains ''%2F'' L"
      "repository self = Some R" "R \<noteq> []" "CHR ''/'' \<notin> set R" "\<not> contains ''%2F'' R"
      "\<not> contains ''sha256:'' R"
      "image_name self = Some I" "I \<noteq> []" "CHR ''/'' \<notin> set I" "\<not> contains ''%2F'' I"
      "CHR '':'' \<notin> set I" "version self = None"
  proof -
    from that assms(2-4) have "get_level self = Some ''image''"
      by (simp add: get_level_def truthy_def)
    with lv assms(3) that have "get_path False self
        = ''projects/'' @ P @ ''/locations/'' @ L @ ''/repositories/'' @ R
            @ ''/packages/'' @ I"
      by (simp add: get_path_def fmt_def)
    with qualified_image [of P L R I env] assms(2-4) that show ?thesis
      by (intro goal) simp
  qed
  have c_digest: ?thesis
    if "location self = Some L" "L \<noteq> []" "CHR ''/'' \<notin> set L" "\<not> contains ''%2F'' L"
      "repository self = Some R" "R \<noteq> []" "CHR ''/'' \<notin> set R" "\<not> contains ''%2F'' R"
      "\<not> contains ''sha256:'' R"
      "image_name self = Some I" "I \<noteq> []" "CHR ''/'' \<notin> set I" "\<not> contains ''%2F'' I"
      "CHR '':'' \<notin> set I"
      "version self = Some V" "V \<noteq> []" "CHR ''/'' \<notin> set V" "\<not> contains ''%2F'' V"
      "\<not> contains ''sha256:'' V"
  proof -
    from that assms(2-4) have "get_level self = Some ''digest''"
      by (simp add: get_level_def truthy_def)
    with lv assms(2,3) that have "get_path False self
        = ''projects/'' @ P @ ''/locations/'' @ L @ ''/repositories/'' @ R
            @ ''/packages/'' @ I @ ''/versions/sha256:'' @ V"
      by (simp add: get_path_def fmt_def truthy_def)
    with qualified_digest [of P L R I V env] assms(2-4) that show ?thesis
      by (intro goal) simp
  qed
  from assms(5) show ?thesis
  proof (elim disjE conjE)
    assume "location self = None" "repository self = Some []"
      "image_name self = None" "version self = None"
    then show ?thesis by (rule c_project)
  next
    assume "location self = Some L" "L \<noteq> []" "CHR ''/'' \<notin> set L" "\<not> contains ''%2F'' L"
      "repository self = Some []" "image_name self = None" "version self = None"
    then show ?thesis by (rule c_location)
  next
    assume "location self = Some L" "L \<noteq> []" "CHR ''/'' \<notin> set L" "\<not> contains ''%2F'' L"
      "repository self = Some R" "R \<noteq> []" "CHR ''/'' \<notin> set R" "\<not> contains ''%2F'' R"
      "\<not> contains ''sha256:'' R" "image_name self = None" "version self = None"
    then show ?thesis by (rule c_repository)
  next
    assume "location self = Some L" "L \<noteq> []" "CHR ''/'' \<notin> set L" "\<not> contains ''%2F'' L"
      "repository self = Some R" "R \<noteq> []" "CHR ''/'' \<notin> set R" "\<not> contains ''%2F'' R"
      "\<not> contains ''sha256:'' R"
      "image_name self = Some I" "I \<noteq> []" "CHR ''/'' \<notin> set I" "\<not> contains ''%2F'' I"
      "CHR '':'' \<notin> set I" "version self = None"
    then show ?thesis by (rule c_image)
  next
    assume "location self = Some L" "L \<noteq> []" "CHR ''/'' \<notin> set L" "\<not> contains ''%2F'' L"
      "repository self = Some R" "R \<noteq> []" "CHR ''/'' \<notin> set R" "\<not> contains ''%2F'' R"
      "\<not> contains ''sha256:'' R"
      "image_name self = Some I" "I \<noteq> []" "CHR ''/'' \<notin> set I" "\<not> contains ''%2F'' I"
      "CHR '':'' \<notin> set I"
      "version self = Some V" "V \<noteq> []" "CHR ''/'' \<notin> set V" "\<not> contains ''%2F'' V"
      "\<not> contains ''sha256:'' V"
    then show ?thesis by (rule c_digest)
  qed
qed

theorem roundtrip_qualified_path_witness:
  "init \<lparr>environ_PROJECT = Some ''p1'', auth_default_project = None\<rparr>
       (default_args\<lparr>arg_path := ''r1/img1/sha256:abc123'', arg_location := Some ''us''\<rparr>)
     = Inr \<lparr>project = Some ''p1'', location = Some ''us'', repository = Some ''r1'',
             image_name = Some ''img1'', tag = None, version = Some ''abc123'',
             level = Some ''digest'', path = ''p1/us/r1/img1/sha256:abc123''\<rparr>
   \<and> (\<exists>self'. init \<lparr>environ_PROJECT = Some ''p1'', auth_default_project = None\<rparr>
         (default_args\<lparr>arg_path :=
            ''projects/p1/locations/us/repositories/r1/packages/img1/versions/sha256:abc123''\<rparr>)
         = Inr self'
       \<and> project self' = Some ''p1'' \<and> location self' = Some ''us''
       \<and> repository self' = Some ''r1'' \<and> image_name self' = Some ''img1''
       \<and> version self' = Some ''abc123'' \<and> tag self' = None
       \<and> level self' = Some ''digest'')"
proof -
  have 1: "init \<lparr>environ_PROJECT = Some ''p1'', auth_default_project = None\<rparr>
       (default_args\<lparr>arg_path := ''r1/img1/sha256:abc123'', arg_location := Some ''us''\<rparr>)
     = Inr \<lparr>project = Some ''p1'', location = Some ''us'', repository = Some ''r1'',
             image_name = Some ''img1'', tag = None, version = Some ''abc123'',
             level = Some ''digest'', path = ''p1/us/r1/img1/sha256:abc123''\<rparr>"
    by code_simp
  from roundtrip_qualified_path [OF 1, where P = "''p1''" and L = "''us''" and R = "''r1''"
      and I = "''img1''" and V = "''abc123''"] 1
  show ?thesis by (simp add: get_path_def fmt_def truthy_def)
qed

text \<open>
  The claim as first stated is about the stored \<open>self.path\<close>, which \<open>_get_path\<close> shortens
  to \<open>project/location/repository/...\<close> (line 143). \<open>__init__\<close> reads the first segment of
  such a path as the repository, so the round trip fails: the locator of \<open>r\<close> in project
  \<open>p\<close> has the path \<open>p/europe-west2/r\<close>, whose locator has repository \<open>p\<close> and image
  \<open>europe-west2\<close>.
\<close>

theorem roundtrip_stored_path_counterexample:
  "init \<lparr>environ_PROJECT = Some ''p'', auth_default_project = None\<rparr>
       (default_args\<lparr>arg_path := ''r''\<rparr>)
     = Inr \<lparr>project = Some ''p'', location = Some ''europe-west2'', repository = Some ''r'',
             image_name = None, tag = None, version = None,
             level = Some ''repository'', path = ''p/europe-west2/r''\<rparr>
   \<and> init \<lparr>environ_PROJECT = Some ''p'', auth_default_project = None\<rparr>
       (default_args\<lparr>arg_path := ''p/europe-west2/r''\<rparr>)
     = Inr \<lparr>project = Some ''p'', location = Some ''europe-west2'', repository = Some ''p'',
             image_name = Some ''europe-west2'', tag = None, version = None,
             level = Some ''image'', path = ''p/europe-west2/p/europe-west2''\<rparr>
   \<and> repository \<lparr>project = Some ''p'', location = Some ''europe-west2'',
             repository = Some ''p'', image_name = Some ''europe-west2'', tag = None,
             version = None, level = Some ''image'', path = ''p/europe-west2/p/europe-west2''\<rparr>
       \<noteq> repository \<lparr>project = Some ''p'', location = Some ''europe-west2'',
             repository = Some ''r'', image_name = None, tag = None, version = None,
             level = Some ''repository'', path = ''p/europe-west2/r''\<rparr>"
proof -
  have "init \<lparr>environ_PROJECT = Some ''p'', auth_default_project = None\<rparr>
       (default_args\<lparr>arg_path := ''r''\<rparr>)
     = Inr \<lparr>project = Some ''p'', location = Some ''europe-west2'', repository = Some ''r'',
             image_name = None, tag = None, version = None,
             level = Some ''repository'', path = ''p/europe-west2/r''\<rparr>"
    by code_simp
  moreover have "init \<lparr>environ_PROJECT = Some ''p'', auth_default_project = None\<rparr>
       (default_args\<lparr>arg_path := ''p/europe-west2/r''\<rparr>)
     = Inr \<lparr>project = Some ''p'', location = Some ''europe-west2'', repository = Some ''p'',
             image_name = Some ''europe-west2'', tag = None, version = None,
             level = Some ''image'', path = ''p/europe-west2/p/europe-west2''\<rparr>"
    by code_simp
  ultimately show ?thesis by simp
qed

section \<open>Parsing a shorthand path of several segments\<close>

text \<open>
  Claim C7. For a shorthand path \<open>R/s\<^sub>1/.../s\<^sub>N\<close> with \<open>N \<ge> 2\<close> and neither \<open>sha256:\<close> nor \<open>:\<close>
  in the tail, the repository is \<open>R\<close>, the image is \<open>s\<^sub>1, ..., s\<^sub>N\<close> joined with \<open>/\<close> and the
  version stays unset. The code breaks this: line 65 joins \<open>self.image[:-1]\<close>, and the
  last segment goes neither to the image nor to the version. The path \<open>repo/team/img\<close>,
  in the form in which \<open>ls_images\<close> returns the image \<open>team/img\<close> of the repository
  \<open>repo\<close>, gives the image \<open>team\<close>; the path \<open>repo/img/abc123\<close>, of the documented form
  \<open>REPOSITORY/IMAGE/VERSION\<close>, gives the image \<open>img\<close> and no version.
\<close>

theorem shorthand_last_segment_lost:
  "init \<lparr>environ_PROJECT = None, auth_default_project = None\<rparr>
       (default_args\<lparr>arg_path := ''repo/team/img''\<rparr>)
     = Inr \<lparr>project = None, location = Some ''europe-west2'', repository = Some ''repo'',
             image_name = Some ''team'', tag = None, version = None,
             level = Some ''image'', path = ''None/europe-west2/repo/team''\<rparr>
   \<and> init \<lparr>environ_PROJECT = None, auth_default_project = None\<rparr>
       (default_args\<lparr>arg_path := ''repo/img/abc123''\<rparr>)
     = Inr \<lparr>project = None, location = Some ''europe-west2'', repository = Some ''repo'',
             image_name = Some ''img'', tag = None, version = None,
             level = Some ''image'', path = ''None/europe-west2/repo/img''\<rparr>"
  by code_simp

section \<open>Construction never raises, and a tag excludes a version\<close>



text \<open>
  Claim C5. After construction, a locator whose tag is set (true in Python's sense) has
  no version: \<open>version\<close> is \<open>None\<close>, wherever tag and version came from (keyword
  arguments, a \<open>sha256:\<close> in the path, a \<open>:\<close> in the image segment).
\<close>

theorem tag_clears_version:
  assumes "init env a = Inr self" and "truthy (tag self)"
  shows "version self = None"
proof -
  from assms(1) obtain s where
    s: "self = (clear_version s)\<lparr>level := get_level (clear_version s), path := path self\<rparr>"
    by (rule init_final)
  then have "tag self = tag (clear_version s)" "version self = version (clear_version s)"
    by (metis locator.select_convs locator.surjective locator.update_convs)+
  with assms(2) show ?thesis by (simp add: clear_version_def split: if_splits)
qed

theorem tag_clears_version_witness:
  "init \<lparr>environ_PROJECT = None, auth_default_project = None\<rparr>
        (default_args\<lparr>arg_path := ''r/i:t'', arg_version := Some ''v''\<rparr>)
     = Inr \<lparr>project = None, location = Some ''europe-west2'', repository = Some ''r'',
             image_name = Some ''i'', tag = Some ''t'', version = None,
             level = Some ''digest'', path = ''None/europe-west2/r/i/t''\<rparr>
   \<and> truthy (Some ''t'')
   \<and> version \<lparr>project = None, location = Some ''europe-west2'', repository = Some ''r'',
             image_name = Some ''i'', tag = Some ''t'', version = None,
             level = Some ''digest'', path = ''None/europe-west2/r/i/t''\<rparr> = None"
proof -
  have 1: "init \<lparr>environ_PROJECT = None, auth_default_project = None\<rparr>
        (default_args\<lparr>arg_path := ''r/i:t'', arg_version := Some ''v''\<rparr>)
     = Inr \<lparr>project = None, location = Some ''europe-west2'', repository = Some ''r'',
             image_name = Some ''i'', tag = Some ''t'', version = None,
             level = Some ''digest'', path = ''None/europe-west2/r/i/t''\<rparr>"
    by code_simp
  have 2: "truthy (tag \<lparr>project = None, location = Some ''europe-west2'',
             repository = Some ''r'', image_name = Some ''i'', tag = Some ''t'',
             version = None, level = Some ''digest'', path = ''None/europe-west2/r/i/t''\<rparr>)"
    by (simp add: truthy_def)
  from tag_clears_version [OF 1 2] 1 2 show ?thesis by simp
qed

section \<open>Level inference\<close>

text \<open>
  Claim C6. \<open>_get_level\<close> returns the most specific level that applies, in the order
  digest, image, repository, location, project, none: \<open>digest\<close> exactly when tag or
  version is set; otherwise \<open>image\<close> exactly when the image is set; otherwise
  \<open>repository\<close> exactly when the repository is set; otherwise \<open>location\<close> exactly when
  the location is set; otherwise \<open>project\<close> exactly when the project is set; otherwise
  \<open>None\<close>.
\<close>

theorem get_level_most_specific:
  "(get_level self = Some ''digest'' \<longleftrightarrow> truthy (tag self) \<or> truthy (version self)) \<and>
   (get_level self = Some ''image'' \<longleftrightarrow>
      \<not> (truthy (tag self) \<or> truthy (version self)) \<and> truthy (image_name self)) \<and>
   (get_level self = Some ''repository'' \<longleftrightarrow>
      \<not> (truthy (tag self) \<or> truthy (version self)) \<and> \<not> truthy (image_name self)
      \<and> truthy (repository self)) \<and>
   (get_level self = Some ''location'' \<longleftrightarrow>
      \<not> (truthy (tag self) \<or> truthy (version self)) \<and> \<not> truthy (image_name self)
      \<and> \<not> truthy (repository self) \<and> truthy (location self)) \<and>
   (get_level self = Some ''project'' \<longleftrightarrow>
      \<not> (truthy (tag self) \<or> truthy (version self)) \<and> \<not> truthy (image_name self)
      \<and> \<not> truthy (repository self) \<and> \<not> truthy (location self)
      \<and> truthy (project self)) \<and>
   (get_level self = None \<longleftrightarrow>
      \<not> (truthy (tag self) \<or> truthy (version self)) \<and> \<not> truthy (image_name self)
      \<and> \<not> truthy (repository self) \<and> \<not> truthy (location self)
      \<and> \<not> truthy (project self))"
  by (simp add: get_level_def)

theorem get_level_most_specific_witness:
  "get_level \<lparr>project = Some ''p'', location = Some ''l'', repository = Some ''r'',
              image_name = Some [], tag = None, version = Some [],
              level = None, path = []\<rparr> = Some ''repository''"
  using get_level_most_specific [of "\<lparr>project = Some ''p'', location = Some ''l'',
      repository = Some ''r'', image_name = Some [], tag = None, version = Some [],
      level = None, path = []\<rparr>"]
  by (simp add: truthy_def)

section \<open>Listing by level\<close>

text \<open>
  Claim C9. \<open>ls\<close> on a locator of level \<open>project\<close> raises \<open>ValueError\<close> with the message
  that items cannot be listed at the project level; at the levels \<open>location\<close>,
  \<open>repository\<close> and \<open>image\<close> it calls exactly one listing method: \<open>ls_repositories\<close>,
  \<open>ls_images\<close> and \<open>ls_versions\<close> in this order.
\<close>

theorem ls_dispatch:
  "(level self = Some ''project'' \<longrightarrow>
      ls self = Inl (ValueError ''Cannot list items at the project level.'')) \<and>
   (level self = Some ''location'' \<longrightarrow> ls self = Inr (Calls ls_repositories)) \<and>
   (level self = Some ''repository'' \<longrightarrow> ls self = Inr (Calls ls_images)) \<and>
   (level self = Some ''image'' \<longrightarrow> ls self = Inr (Calls ls_versions))"
  by (simp add: ls_def)

text \<open>
  The locators of \<open>ArtifactRegistry(project="p", location=None)\<close>,
  \<open>ArtifactRegistry(project="p")\<close>, \<open>ArtifactRegistry("r", project="p")\<close> and
  \<open>ArtifactRegistry("r/i", project="p")\<close>, one at each of the four levels, and the
  locator without any level.
\<close>

lemma locators_by_level:
  "init \<lparr>environ_PROJECT = None, auth_default_project = None\<rparr>
        (default_args\<lparr>arg_project := Some ''p'', arg_location := None\<rparr>)
     = Inr \<lparr>project = Some ''p'', location = None, repository = Some [],
             image_name = None, tag = None, version = None,
             level = Some ''project'', path = ''p''\<rparr>"
  "init \<lparr>environ_PROJECT = None, auth_default_project = None\<rparr>
        (default_args\<lparr>arg_project := Some ''p''\<rparr>)
     = Inr \<lparr>project = Some ''p'', location = Some ''europe-west2'', repository = Some [],
             image_name = None, tag = None, version = None,
             level = Some ''location'', path = ''p/europe-west2''\<rparr>"
  "init \<lparr>environ_PROJECT = None, auth_default_project = None\<rparr>
        (default_args\<lparr>arg_path := ''r'', arg_project := Some ''p''\<rparr>)
     = Inr \<lparr>project = Some ''p'', location = Some ''europe-west2'', repository = Some ''r'',
             image_name = None, tag = None, version = None,
             level = Some ''repository'', path = ''p/europe-west2/r''\<rparr>"
  "init \<lparr>environ_PROJECT = None, auth_default_project = None\<rparr>
        (default_args\<lparr>arg_path := ''r/i'', arg_project := Some ''p''\<rparr>)
     = Inr \<lparr>project = Some ''p'', location = Some ''europe-west2'', repository = Some ''r'',
             image_name = Some ''i'', tag = None, version = None,
             level = Some ''image'', path = ''p/europe-west2/r/i''\<rparr>"
  "init \<lparr>environ_PROJECT = None, auth_default_project = None\<rparr>
        (default_args\<lparr>arg_location := None\<rparr>)
     = Inr \<lparr>project = None, location = None, repository = Some [],
             image_name = None, tag = None, version = None, level = None, path = []\<rparr>"
  by code_simp+

theorem ls_dispatch_witness:
  "ls \<lparr>project = Some ''p'', location = None, repository = Some [],
        image_name = None, tag = None, version = None,
        level = Some ''project'', path = ''p''\<rparr>
     = Inl (ValueError ''Cannot list items at the project level.'')
   \<and> ls \<lparr>project = Some ''p'', location = Some ''europe-west2'', repository = Some [],
        image_name = None, tag = None, version = None,
        level = Some ''location'', path = ''p/europe-west2''\<rparr>
     = Inr (Calls ls_repositories)
   \<and> ls \<lparr>project = Some ''p'', location = Some ''europe-west2'', repository = Some ''r'',
        image_name = None, tag = None, version = None,
        level = Some ''repository'', path = ''p/europe-west2/r''\<rparr>
     = Inr (Calls ls_images)
   \<and> ls \<lparr>project = Some ''p'', location = Some ''europe-west2'', repository = Some ''r'',
        image_name = Some ''i'', tag = None, version = None,
        level = Some ''image'', path = ''p/europe-west2/r/i''\<rparr>
     = Inr (Calls ls_versions)"
  using
    ls_dispatch [of "\<lparr>project = Some ''p'', location = None, repository = Some [],
        image_name = None, tag = None, version = None,
        level = Some ''project'', path = ''p''\<rparr>"]
    ls_dispatch [of "\<lparr>project = Some ''p'', location = Some ''europe-west2'',
        repository = Some [], image_name = None, tag = None, version = None,
        level = Some ''location'', path = ''p/europe-west2''\<rparr>"]
    ls_dispatch [of "\<lparr>project = Some ''p'', location = Some ''europe-west2'',
        repository = Some ''r'', image_name = None, tag = None, version = None,
        level = Some ''repository'', path = ''p/europe-west2/r''\<rparr>"]
    ls_dispatch [of "\<lparr>project = Some ''p'', location = Some ''europe-west2'',
        repository = Some ''r'', image_name = Some ''i'', tag = None, version = None,
        level = Some ''image'', path = ''p/europe-west2/r/i''\<rparr>"]
  by simp

text \<open>
  Claim C10. \<open>ls\<close> on a locator of level \<open>digest\<close>, or of no level, returns \<open>None\<close>:
  it raises nothing and calls no listing method, no branch of its \<open>if\<close> chain applying.
\<close>

theorem ls_falls_through:
  "level self = Some ''digest'' \<or> level self = None \<Longrightarrow> ls self = Inr Returns_None"
  by (auto simp: ls_def)

theorem ls_falls_through_witness:
  "init \<lparr>environ_PROJECT = None, auth_default_project = None\<rparr>
        (default_args\<lparr>arg_path := ''r/i:t''\<rparr>)
     = Inr \<lparr>project = None, location = Some ''europe-west2'', repository = Some ''r'',
             image_name = Some ''i'', tag = Some ''t'', version = None,
             level = Some ''digest'', path = ''None/europe-west2/r/i/t''\<rparr>
   \<and> ls \<lparr>project = None, location = Some ''europe-west2'', repository = Some ''r'',
          image_name = Some ''i'', tag = Some ''t'', version = None,
          level = Some ''digest'', path = ''None/europe-west2/r/i/t''\<rparr> = Inr Returns_None
   \<and> ls \<lparr>project = None, location = None, repository = Some [],
          image_name = None, tag = None, version = None, level = None, path = []\<rparr>
       = Inr Returns_None"
proof -
  have 1: "init \<lparr>environ_PROJECT = None, auth_default_project = None\<rparr>
        (default_args\<lparr>arg_path := ''r/i:t''\<rparr>)
     = Inr \<lparr>project = None, location = Some ''europe-west2'', repository = Some ''r'',
             image_name = Some ''i'', tag = Some ''t'', version = None,
             level = Some ''digest'', path = ''None/europe-west2/r/i/t''\<rparr>"
    by code_simp
  have 2: "level \<lparr>project = None, location = Some ''europe-west2'', repository = Some ''r'',
          image_name = Some ''i'', tag = Some ''t'', version = None,
          level = Some ''digest'', path = ''None/europe-west2/r/i/t''\<rparr> = Some ''digest''
        \<or> level \<lparr>project = None, location = Some ''europe-west2'', repository = Some ''r'',
          image_name = Some ''i'', tag = Some ''t'', version = None,
          level = Some ''digest'', path = ''None/europe-west2/r/i/t''\<rparr> = None"
    by simp
  have 3: "level \<lparr>project = None, location = None, repository = Some [],
          image_name = None, tag = None, version = None, level = None, path = []\<rparr>
          = Some ''digest''
        \<or> level \<lparr>project = None, location = None, repository = Some [],
          image_name = None, tag = None, version = None, level = None, path = []\<rparr> = None"
    by simp
  from ls_falls_through [OF 2] ls_falls_through [OF 3] 1 show ?thesis by simp
qed

end
